theory Spec2Isabelle
  imports Complex_Main
begin

section \<open>Python strings: \<open>str.strip\<close> and \<open>str.lower\<close>\<close>

text \<open>
  A Python \<open>str\<close> is modelled as a \<open>string\<close>; a \<open>char\<close> stands for the code
  point with the same number (0 to 255). On these code points \<open>str.isspace\<close> holds
  for U+0009 to U+000D, U+001C to U+0020, U+0085 and U+00A0, and \<open>str.lower\<close> moves
  A to Z and the capital letters U+00C0 to U+00DE (U+00D7, the multiplication sign,
  apart) up by 32.
\<close>

definition py_isspace :: "char \<Rightarrow> bool" where
  "py_isspace c =
     (let n = (of_char c :: nat)
      in (9 \<le> n \<and> n \<le> 13) \<or> (28 \<le> n \<and> n \<le> 32) \<or> n = 133 \<or> n = 160)"

definition py_strip :: "string \<Rightarrow> string" where
  "py_strip s = rev (dropWhile py_isspace (rev (dropWhile py_isspace s)))"

definition py_lower_char :: "char \<Rightarrow> char" where
  "py_lower_char c =
     (let n = (of_char c :: nat)
      in if (65 \<le> n \<and> n \<le> 90) \<or> (192 \<le> n \<and> n \<le> 222 \<and> n \<noteq> 215)
         then char_of (n + 32) else c)"

definition py_lower :: "string \<Rightarrow> string" where
  "py_lower s = map py_lower_char s"

text \<open>\<open>movie.strip().lower()\<close>, and the same on a column: \<open>.str.strip().str.lower()\<close>.\<close>

definition normalize :: "string \<Rightarrow> string" where
  "normalize s = py_lower (py_strip s)"

section \<open>Python values and exceptions\<close>

text \<open>
  Every \<open>raise\<close> of the program and of the libraries it calls is a value of \<open>exn\<close>:
  a function that can raise returns \<open>exn + 'a\<close>, the exception on the left.
  \<open>RequestException\<close> is what \<open>requests.get\<close> raises when the provider cannot be
  reached, \<open>JSONDecodeError\<close> what \<open>response.json()\<close> raises on a body that is not
  JSON.
\<close>

datatype exn = ValueError | IndexError | KeyError | TypeError | RequestException | JSONDecodeError

text \<open>The Python value that \<open>response.json()\<close> builds from a JSON document.\<close>

datatype pyval =
    PNone
  | PBool bool
  | PNum real
  | PStr string
  | PList "pyval list"
  | PDict "(string \<times> pyval) list"

definition then_do :: "exn + 'a \<Rightarrow> ('a \<Rightarrow> exn + 'b) \<Rightarrow> exn + 'b" where
  "then_do m f = (case m of Inl x \<Rightarrow> Inl x | Inr v \<Rightarrow> f v)"

text \<open>\<open>sub in s\<close> on two strings: \<open>sub\<close> occurs in \<open>s\<close> as a contiguous piece.\<close>

fun py_str_contains :: "string \<Rightarrow> string \<Rightarrow> bool" where
  "py_str_contains sub [] = (sub = [])"
| "py_str_contains sub (c # cs) = (take (length sub) (c # cs) = sub \<or> py_str_contains sub cs)"

text \<open>\<open>key in data\<close> for a string \<open>key\<close>: membership among the keys of a dict, among the
  elements of a list, as a piece of a string; the other values are not iterable.\<close>

fun py_contains :: "string \<Rightarrow> pyval \<Rightarrow> exn + bool" where
  "py_contains key (PDict kvs) = Inr (key \<in> set (map fst kvs))"
| "py_contains key (PList xs) = Inr (PStr key \<in> set xs)"
| "py_contains key (PStr s) = Inr (py_str_contains key s)"
| "py_contains key _ = Inl TypeError"

text \<open>\<open>data[key]\<close> for a string \<open>key\<close>: only a dict takes a string subscript.\<close>

fun py_getitem :: "pyval \<Rightarrow> string \<Rightarrow> exn + pyval" where
  "py_getitem (PDict kvs) key = (case map_of kvs key of None \<Rightarrow> Inl KeyError | Some v \<Rightarrow> Inr v)"
| "py_getitem _ key = Inl TypeError"

text \<open>\<open>data[0]\<close>: first element of a list, first character of a string; a dict built from
  JSON has string keys only, so the key \<open>0\<close> is missing.\<close>

fun py_getitem0 :: "pyval \<Rightarrow> exn + pyval" where
  "py_getitem0 (PList xs) = (case xs of [] \<Rightarrow> Inl IndexError | x # _ \<Rightarrow> Inr x)"
| "py_getitem0 (PStr s) = (case s of [] \<Rightarrow> Inl IndexError | c # _ \<Rightarrow> Inr (PStr [c]))"
| "py_getitem0 (PDict kvs) = Inl KeyError"
| "py_getitem0 _ = Inl TypeError"

fun py_len :: "pyval \<Rightarrow> exn + nat" where
  "py_len (PList xs) = Inr (length xs)"
| "py_len (PStr s) = Inr (length s)"
| "py_len (PDict kvs) = Inr (length (remdups (map fst kvs)))"
| "py_len _ = Inl TypeError"

section \<open>The providers and the configuration\<close>

text \<open>
  \<open>requests.get(url)\<close> returns a response or raises: \<open>requests_get\<close> gives the
  provider's answer to each URL during one request, \<open>None\<close> when the call raises.
  A response has a status code and a body; \<open>json = None\<close> is a body that
  \<open>response.json()\<close> cannot decode. The API keys are module constants read with
  \<open>os.getenv\<close>, which gives \<open>None\<close> for a variable that is not set. \<open>str_of\<close> is
  Python's \<open>str()\<close> on the values that are not strings, as an f-string renders them.
\<close>

record response =
  status_code :: int
  json :: "pyval option"

record env =
  OMDB_API_KEY :: "string option"
  YOUTUBE_API_KEY :: "string option"
  requests_get :: "string \<Rightarrow> response option"
  str_of :: "pyval \<Rightarrow> string"

definition fmt_key :: "string option \<Rightarrow> string" where
  "fmt_key k = (case k of None \<Rightarrow> ''None'' | Some s \<Rightarrow> s)"

definition fmt_val :: "env \<Rightarrow> pyval \<Rightarrow> string" where
  "fmt_val e v = (case v of PStr s \<Rightarrow> s | _ \<Rightarrow> str_of e v)"

definition poster_url :: "env \<Rightarrow> string \<Rightarrow> string" where
  "poster_url e movie_title =
     ''http://www.omdbapi.com/?t='' @ movie_title @ ''&apikey='' @ fmt_key (OMDB_API_KEY e)"

definition trailer_url :: "env \<Rightarrow> string \<Rightarrow> string" where
  "trailer_url e movie_title =
     ''https://www.googleapis.com/youtube/v3/search?part=snippet&q='' @ movie_title
       @ ''+official+trailer&type=video&maxResults=1&key='' @ fmt_key (YOUTUBE_API_KEY e)"

section \<open>Enrichment clients\<close>

text \<open>\<open>fetch_movie_poster\<close>: the value \<open>PNone\<close> is Python's \<open>None\<close>.\<close>

definition fetch_movie_poster :: "env \<Rightarrow> string \<Rightarrow> exn + pyval" where
  "fetch_movie_poster e movie_title =
     (case requests_get e (poster_url e movie_title) of
        None \<Rightarrow> Inl RequestException
      | Some response \<Rightarrow>
          if status_code response = 200 then
            (case json response of
               None \<Rightarrow> Inl JSONDecodeError
             | Some data \<Rightarrow>
                 then_do (py_contains ''Poster'' data) (\<lambda>has_poster.
                   if has_poster then
                     then_do (py_getitem data ''Poster'') (\<lambda>poster.
                       if poster \<noteq> PStr ''N/A'' then Inr poster else Inr PNone)
                   else Inr PNone))
          else Inr PNone)"

definition fetch_movie_trailer :: "env \<Rightarrow> string \<Rightarrow> exn + string option" where
  "fetch_movie_trailer e movie_title =
     (case requests_get e (trailer_url e movie_title) of
        None \<Rightarrow> Inl RequestException
      | Some response \<Rightarrow>
          if status_code response = 200 then
            (case json response of
               None \<Rightarrow> Inl JSONDecodeError
             | Some data \<Rightarrow>
                 then_do (py_contains ''items'' data) (\<lambda>has_items.
                   if has_items then
                     then_do (py_getitem data ''items'') (\<lambda>items.
                     then_do (py_len items) (\<lambda>n.
                       if n > 0 then
                         then_do (py_getitem0 items) (\<lambda>item.
                         then_do (py_getitem item ''id'') (\<lambda>ident.
                         then_do (py_getitem ident ''videoId'') (\<lambda>video_id.
                           Inr (Some (''https://www.youtube.com/watch?v='' @ fmt_val e video_id)))))
                       else Inr None))
                   else Inr None))
          else Inr None)"

section \<open>The catalog and the recommendation\<close>

text \<open>
  The module globals: \<open>movies\<close> is the \<open>title\<close> column of the DataFrame, a title by
  position (the DataFrame has the default index, so that a label is a position);
  \<open>similarity\<close> is the matrix, a list of rows. The scores are compared only, and are
  taken to be real numbers (no NaN).
\<close>

record store =
  movies :: "string list"
  similarity :: "real list list"

text \<open>\<open>sorted(xs, reverse=True, key=key)\<close>: Python reverses the list, sorts it with its
  stable ascending sort and reverses the outcome, which keeps elements of equal key in
  their original order.\<close>

definition py_sorted_reverse :: "('a \<Rightarrow> 'k::linorder) \<Rightarrow> 'a list \<Rightarrow> 'a list" where
  "py_sorted_reverse key xs = rev (sort_key key (rev xs))"

text \<open>\<open>movies[movies['title'] == movie].index\<close>, first element: the first position that
  holds the title.\<close>

fun first_index :: "'a list \<Rightarrow> 'a \<Rightarrow> nat option" where
  "first_index [] x = None"
| "first_index (y # ys) x = (if y = x then Some 0 else map_option Suc (first_index ys x))"

text \<open>What \<open>recommend\<close> returns: two lists on the early returns, three at the end.\<close>

datatype result =
    Tuple2 "string list" "pyval list"
  | Tuple3 "string list" "pyval list" "string option list"

text \<open>Line 114: the ranked \<open>(index, score)\<close> pairs, first entry dropped, at most 20 kept.\<close>

definition movies_list :: "real list \<Rightarrow> (nat \<times> real) list" where
  "movies_list distances = take 20 (drop 1 (py_sorted_reverse snd (enumerate 0 distances)))"

text \<open>The \<open>for\<close> loop of \<open>recommend\<close>, over the three lists it appends to.
  \<open>movies.iloc[i]\<close> raises \<open>IndexError\<close> out of range.\<close>

fun recommend_loop ::
  "env \<Rightarrow> string list \<Rightarrow> (nat \<times> real) list
     \<Rightarrow> string list \<times> pyval list \<times> string option list
     \<Rightarrow> exn + (string list \<times> pyval list \<times> string option list)" where
  "recommend_loop e titles [] acc = Inr acc"
| "recommend_loop e titles (i # rest) (recommended_movies, recommended_posters, trailers) =
     (if fst i < length titles then
        (let movie_title = titles ! fst i
         in then_do (fetch_movie_poster e movie_title) (\<lambda>poster_url.
            then_do (fetch_movie_trailer e movie_title) (\<lambda>trailer_url.
              recommend_loop e titles rest
                (recommended_movies @ [movie_title],
                 recommended_posters @ [poster_url],
                 trailers @ [trailer_url]))))
      else Inl IndexError)"

text \<open>
  \<open>recommend\<close> takes the form field (\<open>None\<close> when it is missing) and returns its
  outcome together with the globals as it leaves them: line 105 assigns the normalised
  titles to the \<open>title\<close> column before anything can raise.
\<close>

definition recommend :: "env \<Rightarrow> store \<Rightarrow> string option \<Rightarrow> (exn + result) \<times> store" where
  "recommend e st movie_opt =
     (case movie_opt of
        None \<Rightarrow> (Inr (Tuple2 [] []), st)
      | Some movie_in \<Rightarrow>
          if py_strip movie_in = [] then (Inr (Tuple2 [] []), st)
          else
            (let movie = normalize movie_in;
                 st' = st\<lparr>movies := map normalize (movies st)\<rparr>
             in if movie \<notin> set (movies st') then (Inr (Tuple2 [] []), st')
                else
                  (case first_index (movies st') movie of
                     None \<Rightarrow> (Inl IndexError, st')
                   | Some movie_index \<Rightarrow>
                       if movie_index < length (similarity st') then
                         (let distances = similarity st' ! movie_index
                          in case recommend_loop e (movies st') (movies_list distances) ([], [], []) of
                               Inl x \<Rightarrow> (Inl x, st')
                             | Inr (recommended_movies, recommended_posters, trailers) \<Rightarrow>
                                 (Inr (Tuple3 recommended_movies recommended_posters trailers), st'))
                       else (Inl IndexError, st'))))"

section \<open>The routes\<close>

text \<open>The variables a route hands to \<open>index.html\<close>.\<close>

record page =
  movie_list :: "string list"
  recommendations :: "string list"
  posters :: "pyval list"
  page_trailers :: "string option list"
  selected_movie :: "string option"

definition home :: "store \<Rightarrow> string list" where
  "home st = movies st"

text \<open>\<open>recommendations, posters, trailers = recommend(selected_movie)\<close> raises
  \<open>ValueError\<close> when the tuple has two elements.\<close>

definition recommend_movies :: "env \<Rightarrow> store \<Rightarrow> string option \<Rightarrow> (exn + page) \<times> store" where
  "recommend_movies e st selected =
     (case recommend e st selected of
        (Inl x, st') \<Rightarrow> (Inl x, st')
      | (Inr (Tuple2 a b), st') \<Rightarrow> (Inl ValueError, st')
      | (Inr (Tuple3 rs ps ts), st') \<Rightarrow>
          (Inr \<lparr>movie_list = movies st', recommendations = rs, posters = ps,
                page_trailers = ts, selected_movie = selected\<rparr>, st'))"

section \<open>Catalog invariant and example data\<close>


text \<open>
  Providers and catalogs to run the definitions on: a provider that answers every request
  with a poster and one video, one that answers 404, one that cannot be reached, one
  whose body is not JSON, one whose poster is the placeholder and whose video list is
  empty, one whose JSON object has neither field; the catalog of the scenario with a full matrix, and a catalog
  whose first two movies have the same score everywhere.
\<close>

definition ok_body :: pyval where
  "ok_body = PDict [(''Poster'', PStr ''http://img.example/p.jpg''),
                    (''items'', PList [PDict [(''id'', PDict [(''videoId'', PStr ''abc123'')])]])]"

definition provider_ok :: env where
  "provider_ok = \<lparr>OMDB_API_KEY = Some ''omdb'', YOUTUBE_API_KEY = Some ''yt'',
      requests_get = (\<lambda>url. Some \<lparr>status_code = 200, json = Some ok_body\<rparr>),
      str_of = (\<lambda>v. [])\<rparr>"

definition provider_404 :: env where
  "provider_404 = provider_ok\<lparr>requests_get := (\<lambda>url. Some \<lparr>status_code = 404, json = None\<rparr>)\<rparr>"

definition provider_down :: env where
  "provider_down = provider_ok\<lparr>requests_get := (\<lambda>url. None)\<rparr>"

definition provider_garbled :: env where
  "provider_garbled = provider_ok\<lparr>requests_get := (\<lambda>url. Some \<lparr>status_code = 200, json = None\<rparr>)\<rparr>"

definition catalog3 :: store where
  "catalog3 = \<lparr>movies = [''Inception'', ''Interstellar'', ''Tenet''],
      similarity = [[1, 0.8, 0.3], [0.8, 1, 0.5], [0.3, 0.5, 1]]\<rparr>"


definition na_body :: pyval where
  "na_body = PDict [(''Poster'', PStr ''N/A''), (''items'', PList [])]"

definition provider_na :: env where
  "provider_na = provider_ok\<lparr>requests_get := (\<lambda>url. Some \<lparr>status_code = 200, json = Some na_body\<rparr>)\<rparr>"

definition provider_empty :: env where
  "provider_empty = provider_ok\<lparr>requests_get := (\<lambda>url. Some \<lparr>status_code = 200, json = Some (PDict [])\<rparr>)\<rparr>"

section \<open>Title normalisation\<close>

lemma py_isspace_lower: "py_isspace (py_lower_char c) = py_isspace c"
proof -
  have "of_char c < (256::nat)" by simp
  then show ?thesis
    unfolding py_isspace_def py_lower_char_def Let_def
    by auto
qed

lemma py_lower_char_idem: "py_lower_char (py_lower_char c) = py_lower_char c"
proof -
  have "of_char c < (256::nat)" by simp
  then show ?thesis
    unfolding py_lower_char_def Let_def
    by auto
qed

lemma py_lower_idem: "py_lower (py_lower s) = py_lower s"
  by (simp add: py_lower_def py_lower_char_idem)

lemma dropWhile_isspace_lower:
  "dropWhile py_isspace (map py_lower_char s) = map py_lower_char (dropWhile py_isspace s)"
  by (induction s) (simp_all add: py_isspace_lower)

lemma py_strip_lower: "py_strip (py_lower s) = py_lower (py_strip s)"
  by (simp add: py_strip_def py_lower_def dropWhile_isspace_lower rev_map)

lemma dropWhile_rev_dropWhile:
  assumes "dropWhile P ys = ys"
  shows "dropWhile P (rev (dropWhile P (rev ys))) = rev (dropWhile P (rev ys))"
proof (cases "rev (dropWhile P (rev ys))")
  case Nil
  show ?thesis by (simp only: Nil dropWhile.simps)
next
  case (Cons z zs)
  have "rev ys = takeWhile P (rev ys) @ dropWhile P (rev ys)" by simp
  then have "ys = rev (dropWhile P (rev ys)) @ rev (takeWhile P (rev ys))"
    by (metis rev_append rev_rev_ident)
  with Cons have ys: "ys = z # zs @ rev (takeWhile P (rev ys))" by simp
  then have "ys \<noteq> []" and "hd ys = z" by (metis list.discI, metis list.sel(1))
  with assms hd_dropWhile [of P ys] have "\<not> P z" by simp
  with Cons show ?thesis by simp
qed

lemma py_strip_idem: "py_strip (py_strip s) = py_strip s"
proof -
  have "dropWhile py_isspace (rev (dropWhile py_isspace (rev (dropWhile py_isspace s))))
        = rev (dropWhile py_isspace (rev (dropWhile py_isspace s)))"
    by (rule dropWhile_rev_dropWhile) simp
  then show ?thesis by (simp add: py_strip_def)
qed

lemma normalize_twice: "normalize (normalize s) = normalize s"
  by (simp add: normalize_def py_strip_lower py_strip_idem py_lower_idem)


section \<open>The ranking\<close>

lemma set_py_sorted_reverse: "set (py_sorted_reverse key xs) = set xs"
  by (simp add: py_sorted_reverse_def)


lemma py_sorted_reverse_descending:
  "sorted_wrt (\<lambda>a b. key b \<le> key a) (py_sorted_reverse key xs)"
proof -
  have "sorted (map key (sort_key key (rev xs)))" by (rule sorted_sort_key)
  then have "sorted_wrt (\<lambda>a b. key a \<le> key b) (sort_key key (rev xs))"
    by (simp add: sorted_wrt_map)
  then show ?thesis
    by (simp add: py_sorted_reverse_def sorted_wrt_rev)
qed

lemma py_sorted_reverse_stable:
  "filter (\<lambda>y. key y = k) (py_sorted_reverse key xs) = filter (\<lambda>y. key y = k) xs"
proof -
  have "filter (\<lambda>y. key y = k) (sort_key key (rev xs)) = filter (\<lambda>y. key y = k) (rev xs)"
    by (rule sort_key_stable)
  then have "rev (filter (\<lambda>y. key y = k) (sort_key key (rev xs))) = filter (\<lambda>y. key y = k) xs"
    by (simp add: rev_filter)
  then show ?thesis
    by (simp add: py_sorted_reverse_def rev_filter)
qed

lemma sorted_wrt_within_keys:
  "(\<And>k. sorted_wrt R (filter (\<lambda>y. key y = k) ys)) \<Longrightarrow>
   sorted_wrt (\<lambda>a b. key a = key b \<longrightarrow> R a b) ys"
proof (induction ys)
  case Nil
  then show ?case by simp
next
  case (Cons y ys)
  have tl: "sorted_wrt R (filter (\<lambda>x. key x = k) ys)" for k
    using Cons.prems [of k] by (cases "key y = k") simp_all
  have hd: "R y b" if "b \<in> set ys" "key y = key b" for b
    using Cons.prems [of "key y"] that by simp
  from Cons.IH [OF tl] hd show ?case by simp
qed

lemma sorted_wrt_fst_enumerate: "sorted_wrt (\<lambda>a b. fst a < fst b) (enumerate n xs)"
proof -
  have "sorted_wrt (<) (map fst (enumerate n xs))" by simp
  then show ?thesis by (simp only: sorted_wrt_map)
qed

lemma py_sorted_reverse_enumerate_ties:
  "sorted_wrt (\<lambda>a b. snd a = snd b \<longrightarrow> fst a < fst b)
     (py_sorted_reverse snd (enumerate 0 distances))"
proof (rule sorted_wrt_within_keys)
  fix k :: 'a
  show "sorted_wrt (\<lambda>a b. fst a < fst b)
          (filter (\<lambda>y. snd y = k) (py_sorted_reverse snd (enumerate 0 distances)))"
    by (simp only: py_sorted_reverse_stable sorted_wrt_filter sorted_wrt_fst_enumerate)
qed


lemma set_movies_list_subset:
  "set (movies_list distances) \<subseteq> set (enumerate 0 distances)"
proof -
  have "set (movies_list distances) \<subseteq> set (py_sorted_reverse snd (enumerate 0 distances))"
    unfolding movies_list_def
    by (meson set_take_subset set_drop_subset subset_trans)
  then show ?thesis by (simp only: set_py_sorted_reverse)
qed

lemma movies_list_entry:
  "i \<in> set (movies_list distances) \<Longrightarrow> fst i < length distances \<and> snd i = distances ! fst i"
  using set_movies_list_subset [of distances]
  by (cases i) (auto simp: in_set_enumerate_eq)

lemma movies_list_descending:
  "sorted_wrt (\<lambda>a b. snd b \<le> snd a) (movies_list distances)"
  unfolding movies_list_def
  by (intro sorted_wrt_take sorted_wrt_drop py_sorted_reverse_descending)

lemma movies_list_ties:
  "sorted_wrt (\<lambda>a b. snd a = snd b \<longrightarrow> fst a < fst b) (movies_list distances)"
  unfolding movies_list_def
  by (intro sorted_wrt_take sorted_wrt_drop py_sorted_reverse_enumerate_ties)

section \<open>The loop and the shape of \<open>recommend\<close>\<close>

lemma first_index_Some:
  "first_index xs x = Some k \<Longrightarrow> k < length xs \<and> xs ! k = x \<and> (\<forall>j<k. xs ! j \<noteq> x)"
proof (induction xs arbitrary: k)
  case Nil
  then show ?case by simp
next
  case (Cons y ys)
  show ?case
  proof (cases "y = x")
    case True
    with Cons.prems show ?thesis by simp
  next
    case False
    with Cons.prems obtain k' where k': "first_index ys x = Some k'" "k = Suc k'"
      by auto
    from Cons.IH [OF k'(1)] False k'(2) show ?thesis
      by (auto simp: less_Suc_eq_0_disj)
  qed
qed


lemma then_do_Inr:
  "then_do m f = Inr r \<longleftrightarrow> (\<exists>v. m = Inr v \<and> f v = Inr r)"
  by (cases m) (simp_all add: then_do_def)

lemma then_do_Inl:
  "then_do m f = Inl x \<longleftrightarrow> m = Inl x \<or> (\<exists>v. m = Inr v \<and> f v = Inl x)"
  by (cases m) (simp_all add: then_do_def)

lemma recommend_loop_Inr:
  "recommend_loop e titles ml (a, b, c) = Inr (a', b', c') \<Longrightarrow>
     a' = a @ map (\<lambda>i. titles ! fst i) ml \<and>
     map Inr b' = map Inr b @ map (\<lambda>i. fetch_movie_poster e (titles ! fst i)) ml \<and>
     map Inr c' = map Inr c @ map (\<lambda>i. fetch_movie_trailer e (titles ! fst i)) ml \<and>
     (\<forall>i\<in>set ml. fst i < length titles)"
proof (induction ml arbitrary: a b c)
  case Nil
  then show ?case by simp
next
  case (Cons i rest)
  from Cons.prems have inb: "fst i < length titles"
    by (simp split: if_splits)
  with Cons.prems obtain p t where
    p: "fetch_movie_poster e (titles ! fst i) = Inr p" and
    t: "fetch_movie_trailer e (titles ! fst i) = Inr t" and
    rest: "recommend_loop e titles rest (a @ [titles ! fst i], b @ [p], c @ [t]) = Inr (a', b', c')"
    by (auto simp: then_do_Inr Let_def)
  from Cons.IH [OF rest] p t inb show ?case by simp
qed

lemma recommend_loop_Inl:
  "recommend_loop e titles ml (a, b, c) = Inl x \<Longrightarrow>
     (\<exists>i\<in>set ml. \<not> fst i < length titles) \<or>
     (\<exists>i\<in>set ml. fetch_movie_poster e (titles ! fst i) = Inl x
                  \<or> fetch_movie_trailer e (titles ! fst i) = Inl x)"
proof (induction ml arbitrary: a b c)
  case Nil
  then show ?case by simp
next
  case (Cons i rest)
  show ?case
  proof (cases "fst i < length titles")
    case False
    then show ?thesis by simp
  next
    case True
    with Cons.prems consider
      "fetch_movie_poster e (titles ! fst i) = Inl x"
      | "fetch_movie_trailer e (titles ! fst i) = Inl x"
      | p t where "recommend_loop e titles rest (a @ [titles ! fst i], b @ [p], c @ [t]) = Inl x"
      by (auto simp: then_do_Inl Let_def)
    then show ?thesis
    proof cases
      case 3
      from Cons.IH [OF 3] show ?thesis by auto
    qed auto
  qed
qed

lemma recommend_valid:
  assumes "py_strip q \<noteq> []"
    and "first_index (map normalize (movies st)) (normalize q) = Some k"
    and "k < length (similarity st)"
  shows "fst (recommend e st (Some q)) =
     (case recommend_loop e (map normalize (movies st)) (movies_list (similarity st ! k)) ([], [], []) of
        Inl x \<Rightarrow> Inl x
      | Inr (a, b, c) \<Rightarrow> Inr (Tuple3 a b c))"
proof -
  from first_index_Some [OF assms(2)] have "normalize q \<in> set (map normalize (movies st))"
    by (metis nth_mem)
  with assms show ?thesis
    by (simp add: recommend_def Let_def split: sum.splits prod.splits)
qed

lemma recommend_Tuple3:
  assumes "fst (recommend e st q) = Inr (Tuple3 ts ps trs)"
  shows "\<exists>m k. q = Some m \<and> py_strip m \<noteq> []
           \<and> first_index (map normalize (movies st)) (normalize m) = Some k
           \<and> k < length (similarity st)
           \<and> recommend_loop e (map normalize (movies st)) (movies_list (similarity st ! k)) ([], [], [])
               = Inr (ts, ps, trs)"
  using assms
  by (auto simp: recommend_def Let_def split: option.splits if_splits sum.splits prod.splits)

lemma recommend_Tuple3_lists:
  assumes "fst (recommend e st q) = Inr (Tuple3 ts ps trs)"
  shows "\<exists>m k. q = Some m \<and> py_strip m \<noteq> []
           \<and> first_index (map normalize (movies st)) (normalize m) = Some k
           \<and> k < length (similarity st)
           \<and> ts = map (\<lambda>i. normalize (movies st ! i)) (map fst (movies_list (similarity st ! k)))
           \<and> (\<forall>i\<in>set (movies_list (similarity st ! k)). fst i < length (movies st))
           \<and> map Inr ps = map (fetch_movie_poster e) ts
           \<and> map Inr trs = map (fetch_movie_trailer e) ts"
proof -
  from recommend_Tuple3 [OF assms] obtain m k where
    q: "q = Some m" "py_strip m \<noteq> []"
    and k: "first_index (map normalize (movies st)) (normalize m) = Some k" "k < length (similarity st)"
    and loop: "recommend_loop e (map normalize (movies st)) (movies_list (similarity st ! k)) ([], [], [])
               = Inr (ts, ps, trs)"
    by blast
  from recommend_loop_Inr [OF loop] have
    ts: "ts = map (\<lambda>i. map normalize (movies st) ! fst i) (movies_list (similarity st ! k))"
    and ps: "map Inr ps = map (\<lambda>i. fetch_movie_poster e (map normalize (movies st) ! fst i)) (movies_list (similarity st ! k))"
    and trs: "map Inr trs = map (\<lambda>i. fetch_movie_trailer e (map normalize (movies st) ! fst i)) (movies_list (similarity st ! k))"
    and inb: "\<forall>i\<in>set (movies_list (similarity st ! k)). fst i < length (movies st)"
    by simp_all
  from ts inb have ts': "ts = map (\<lambda>i. normalize (movies st ! i)) (map fst (movies_list (similarity st ! k)))"
    by simp
  from ps ts have "map Inr ps = map (fetch_movie_poster e) ts" by simp
  moreover from trs ts have "map Inr trs = map (fetch_movie_trailer e) ts" by simp
  ultimately show ?thesis using q k ts' inb by blast
qed


section \<open>The example data, evaluated\<close>

lemma fetch_movie_poster_provider_ok:
  "fetch_movie_poster provider_ok t = Inr (PStr ''http://img.example/p.jpg'')"
  by (simp add: fetch_movie_poster_def provider_ok_def ok_body_def then_do_def)

lemma fetch_movie_trailer_provider_ok:
  "fetch_movie_trailer provider_ok t = Inr (Some ''https://www.youtube.com/watch?v=abc123'')"
  by (simp add: fetch_movie_trailer_def provider_ok_def ok_body_def then_do_def fmt_val_def)

lemma catalog3_titles:
  "map normalize (movies catalog3) = [''inception'', ''interstellar'', ''tenet'']"
  by code_simp

lemma catalog3_tenet:
  "py_strip ''Tenet'' \<noteq> []"
  "first_index (map normalize (movies catalog3)) (normalize ''Tenet'') = Some 2"
  "movies_list (similarity catalog3 ! 2) = [(1, 0.5), (0, 0.3)]"
  by code_simp+

lemma recommend_ok_tenet:
  "fst (recommend provider_ok catalog3 (Some ''Tenet'')) =
     Inr (Tuple3 [''interstellar'', ''inception'']
       [PStr ''http://img.example/p.jpg'', PStr ''http://img.example/p.jpg'']
       [Some ''https://www.youtube.com/watch?v=abc123'', Some ''https://www.youtube.com/watch?v=abc123''])"
proof -
  have "2 < length (similarity catalog3)" by (simp add: catalog3_def)
  from recommend_valid [OF catalog3_tenet(1) catalog3_tenet(2) this, of provider_ok]
  show ?thesis
    by (simp add: catalog3_tenet(3) catalog3_titles then_do_def
        fetch_movie_poster_provider_ok fetch_movie_trailer_provider_ok)
qed

section \<open>Positional alignment\<close>

text \<open>
  C9. Whenever \<open>recommend\<close> returns its three lists, the lists of posters and of
  trailers are as long as the list of titles, and at every position \<open>i\<close> the poster
  and the trailer are what the two clients returned for the title at position \<open>i\<close>.
\<close>

theorem recommend_alignment:
  assumes "fst (recommend e st q) = Inr (Tuple3 ts ps trs)"
  shows "length ps = length ts \<and> length trs = length ts \<and>
         (\<forall>i<length ts. fetch_movie_poster e (ts ! i) = Inr (ps ! i)
                        \<and> fetch_movie_trailer e (ts ! i) = Inr (trs ! i))"
proof -
  from recommend_Tuple3_lists [OF assms] have
    ps: "map Inr ps = map (fetch_movie_poster e) ts" and
    trs: "map Inr trs = map (fetch_movie_trailer e) ts"
    by blast+
  from ps have lp: "length ps = length ts" by (metis length_map)
  from trs have lt: "length trs = length ts" by (metis length_map)
  have "fetch_movie_poster e (ts ! i) = Inr (ps ! i) \<and> fetch_movie_trailer e (ts ! i) = Inr (trs ! i)"
    if "i < length ts" for i
  proof -
    from that lp have "map Inr ps ! i = Inr (ps ! i)" by simp
    moreover from that have "map (fetch_movie_poster e) ts ! i = fetch_movie_poster e (ts ! i)" by simp
    moreover from that lt have "map Inr trs ! i = Inr (trs ! i)" by simp
    moreover from that have "map (fetch_movie_trailer e) ts ! i = fetch_movie_trailer e (ts ! i)" by simp
    ultimately show ?thesis using ps trs by metis
  qed
  with lp lt show ?thesis by blast
qed

text \<open>The alignment on the scenario catalog, queried for Tenet.\<close>

theorem recommend_alignment_witness:
  "fst (recommend provider_ok catalog3 (Some ''Tenet'')) =
     Inr (Tuple3 [''interstellar'', ''inception'']
       [PStr ''http://img.example/p.jpg'', PStr ''http://img.example/p.jpg'']
       [Some ''https://www.youtube.com/watch?v=abc123'', Some ''https://www.youtube.com/watch?v=abc123''])
   \<and> fetch_movie_poster provider_ok ''inception'' = Inr (PStr ''http://img.example/p.jpg'')
   \<and> fetch_movie_trailer provider_ok ''inception'' = Inr (Some ''https://www.youtube.com/watch?v=abc123'')"
proof -
  note h = recommend_ok_tenet
  from recommend_alignment [OF h] have a:
    "\<And>i. i < length [''interstellar'', ''inception''] \<Longrightarrow>
       fetch_movie_poster provider_ok ([''interstellar'', ''inception''] ! i)
         = Inr ([PStr ''http://img.example/p.jpg'', PStr ''http://img.example/p.jpg''] ! i)
       \<and> fetch_movie_trailer provider_ok ([''interstellar'', ''inception''] ! i)
         = Inr ([Some ''https://www.youtube.com/watch?v=abc123'', Some ''https://www.youtube.com/watch?v=abc123''] ! i)"
    by blast
  from a [of 1] have
    "fetch_movie_poster provider_ok ''inception'' = Inr (PStr ''http://img.example/p.jpg'')
     \<and> fetch_movie_trailer provider_ok ''inception'' = Inr (Some ''https://www.youtube.com/watch?v=abc123'')"
    by simp
  with h show ?thesis by simp
qed

section \<open>Order of the recommendations\<close>

text \<open>
  C6. Whenever \<open>recommend\<close> returns its three lists, the returned titles are the
  normalised catalog titles at a sequence of indices along which the scores in the row
  of the queried movie never increase, and two indices of equal score stand in
  increasing index order: the order a stable sort leaves.
\<close>

theorem recommend_sorted_descending:
  assumes "fst (recommend e st q) = Inr (Tuple3 ts ps trs)"
  shows "\<exists>m k idxs. q = Some m
           \<and> first_index (map normalize (movies st)) (normalize m) = Some k
           \<and> ts = map (\<lambda>i. normalize (movies st ! i)) idxs
           \<and> sorted_wrt (\<lambda>i j. similarity st ! k ! j \<le> similarity st ! k ! i) idxs
           \<and> sorted_wrt (\<lambda>i j. similarity st ! k ! i = similarity st ! k ! j \<longrightarrow> i < j) idxs"
proof -
  from recommend_Tuple3_lists [OF assms] obtain m k where
    q: "q = Some m"
    and k: "first_index (map normalize (movies st)) (normalize m) = Some k"
    and ts: "ts = map (\<lambda>i. normalize (movies st ! i)) (map fst (movies_list (similarity st ! k)))"
    by blast
  let ?row = "similarity st ! k"
  let ?ml = "movies_list ?row"
  have entry: "\<And>a. a \<in> set ?ml \<Longrightarrow> snd a = ?row ! fst a"
    using movies_list_entry by blast
  have "sorted_wrt (\<lambda>a b. ?row ! fst b \<le> ?row ! fst a) ?ml"
    by (rule sorted_wrt_mono_rel [OF _ movies_list_descending]) (simp add: entry)
  then have d: "sorted_wrt (\<lambda>i j. ?row ! j \<le> ?row ! i) (map fst ?ml)"
    by (simp add: sorted_wrt_map)
  have "sorted_wrt (\<lambda>a b. ?row ! fst a = ?row ! fst b \<longrightarrow> fst a < fst b) ?ml"
    by (rule sorted_wrt_mono_rel [OF _ movies_list_ties]) (simp add: entry)
  then have t: "sorted_wrt (\<lambda>i j. ?row ! i = ?row ! j \<longrightarrow> i < j) (map fst ?ml)"
    by (simp add: sorted_wrt_map)
  from q k ts d t show ?thesis by blast
qed

text \<open>The order on the scenario catalog, queried for Tenet.\<close>

theorem recommend_sorted_descending_witness:
  "\<exists>m k idxs. Some ''Tenet'' = Some m
      \<and> first_index (map normalize (movies catalog3)) (normalize m) = Some k
      \<and> [''interstellar'', ''inception''] = map (\<lambda>i. normalize (movies catalog3 ! i)) idxs
      \<and> sorted_wrt (\<lambda>i j. similarity catalog3 ! k ! j \<le> similarity catalog3 ! k ! i) idxs
      \<and> sorted_wrt (\<lambda>i j. similarity catalog3 ! k ! i = similarity catalog3 ! k ! j \<longrightarrow> i < j) idxs"
proof -
  note h = recommend_ok_tenet
  from recommend_sorted_descending [OF h] show ?thesis .
qed

section \<open>The queried movie in its own recommendations\<close>




section \<open>Number of recommendations\<close>



section \<open>What the enrichment clients do with each provider outcome\<close>

lemma map_of_Some_key: "map_of kvs k = Some v \<Longrightarrow> k \<in> fst ` set kvs"
  by (metis map_of_SomeD fst_conv image_eqI)

text \<open>
  C7, as stated, fails: neither client catches anything. When \<open>requests.get\<close>
  raises, and when the status is 200 and the body is not JSON, the exception leaves the
  client.
\<close>

theorem clients_raise:
  "fetch_movie_poster provider_down ''Tenet'' = Inl RequestException
   \<and> fetch_movie_trailer provider_down ''Tenet'' = Inl RequestException
   \<and> fetch_movie_poster provider_garbled ''Tenet'' = Inl JSONDecodeError
   \<and> fetch_movie_trailer provider_garbled ''Tenet'' = Inl JSONDecodeError"
  by (simp add: fetch_movie_poster_def fetch_movie_trailer_def provider_down_def
      provider_garbled_def provider_ok_def)

text \<open>
  C7, amended. Both clients return \<open>None\<close> when the provider answers with a status
  other than 200, and when it answers 200 with a JSON object in which the field is
  missing or holds the placeholder \<open>N/A\<close> (poster), is missing or holds an empty list
  (trailer). A network failure raises the exception of \<open>requests.get\<close>; a body that
  is not JSON under status 200 raises the decoding error.
\<close>

theorem clients_outcomes:
  "(requests_get e (poster_url e t) = None \<longrightarrow> fetch_movie_poster e t = Inl RequestException)
   \<and> (requests_get e (trailer_url e t) = None \<longrightarrow> fetch_movie_trailer e t = Inl RequestException)
   \<and> (requests_get e (poster_url e t) = Some r \<and> status_code r = 200 \<and> json r = None
        \<longrightarrow> fetch_movie_poster e t = Inl JSONDecodeError)
   \<and> (requests_get e (trailer_url e t) = Some r \<and> status_code r = 200 \<and> json r = None
        \<longrightarrow> fetch_movie_trailer e t = Inl JSONDecodeError)
   \<and> (requests_get e (poster_url e t) = Some r \<and> status_code r \<noteq> 200
        \<longrightarrow> fetch_movie_poster e t = Inr PNone)
   \<and> (requests_get e (trailer_url e t) = Some r \<and> status_code r \<noteq> 200
        \<longrightarrow> fetch_movie_trailer e t = Inr None)
   \<and> (requests_get e (poster_url e t) = Some r \<and> status_code r = 200 \<and> json r = Some (PDict kvs)
        \<and> (map_of kvs ''Poster'' = None \<or> map_of kvs ''Poster'' = Some (PStr ''N/A''))
        \<longrightarrow> fetch_movie_poster e t = Inr PNone)
   \<and> (requests_get e (trailer_url e t) = Some r \<and> status_code r = 200 \<and> json r = Some (PDict kvs)
        \<and> (map_of kvs ''items'' = None \<or> map_of kvs ''items'' = Some (PList []))
        \<longrightarrow> fetch_movie_trailer e t = Inr None)"
proof -
  have p_missing: "fetch_movie_poster e t = Inr PNone"
    if "requests_get e (poster_url e t) = Some r" "status_code r = 200" "json r = Some (PDict kvs)"
       "map_of kvs ''Poster'' = None"
    using that by (simp add: fetch_movie_poster_def then_do_def map_of_eq_None_iff)
  have p_na: "fetch_movie_poster e t = Inr PNone"
    if "requests_get e (poster_url e t) = Some r" "status_code r = 200" "json r = Some (PDict kvs)"
       "map_of kvs ''Poster'' = Some (PStr ''N/A'')"
    using that map_of_Some_key [OF that(4)]
    by (simp add: fetch_movie_poster_def then_do_def)
  have t_missing: "fetch_movie_trailer e t = Inr None"
    if "requests_get e (trailer_url e t) = Some r" "status_code r = 200" "json r = Some (PDict kvs)"
       "map_of kvs ''items'' = None"
    using that by (simp add: fetch_movie_trailer_def then_do_def map_of_eq_None_iff)
  have t_empty: "fetch_movie_trailer e t = Inr None"
    if "requests_get e (trailer_url e t) = Some r" "status_code r = 200" "json r = Some (PDict kvs)"
       "map_of kvs ''items'' = Some (PList [])"
    using that map_of_Some_key [OF that(4)]
    by (simp add: fetch_movie_trailer_def then_do_def)
  have rest:
    "requests_get e (poster_url e t) = None \<longrightarrow> fetch_movie_poster e t = Inl RequestException"
    "requests_get e (trailer_url e t) = None \<longrightarrow> fetch_movie_trailer e t = Inl RequestException"
    "requests_get e (poster_url e t) = Some r \<and> status_code r = 200 \<and> json r = None
        \<longrightarrow> fetch_movie_poster e t = Inl JSONDecodeError"
    "requests_get e (trailer_url e t) = Some r \<and> status_code r = 200 \<and> json r = None
        \<longrightarrow> fetch_movie_trailer e t = Inl JSONDecodeError"
    "requests_get e (poster_url e t) = Some r \<and> status_code r \<noteq> 200
        \<longrightarrow> fetch_movie_poster e t = Inr PNone"
    "requests_get e (trailer_url e t) = Some r \<and> status_code r \<noteq> 200
        \<longrightarrow> fetch_movie_trailer e t = Inr None"
    by (simp_all add: fetch_movie_poster_def fetch_movie_trailer_def)
  from rest p_missing p_na t_missing t_empty show ?thesis by blast
qed

text \<open>
  Each outcome on a provider that produces it.
\<close>

theorem clients_outcomes_witness:
  "fetch_movie_poster provider_down ''Tenet'' = Inl RequestException
   \<and> fetch_movie_trailer provider_down ''Tenet'' = Inl RequestException
   \<and> fetch_movie_poster provider_garbled ''Tenet'' = Inl JSONDecodeError
   \<and> fetch_movie_trailer provider_garbled ''Tenet'' = Inl JSONDecodeError
   \<and> fetch_movie_poster provider_404 ''Tenet'' = Inr PNone
   \<and> fetch_movie_trailer provider_404 ''Tenet'' = Inr None
   \<and> fetch_movie_poster provider_na ''Tenet'' = Inr PNone
   \<and> fetch_movie_trailer provider_na ''Tenet'' = Inr None
   \<and> fetch_movie_poster provider_empty ''Tenet'' = Inr PNone
   \<and> fetch_movie_trailer provider_empty ''Tenet'' = Inr None"
proof -
  note d = clients_outcomes [of provider_down "''Tenet''"]
  note g = clients_outcomes [of provider_garbled "''Tenet''" "\<lparr>status_code = 200, json = None\<rparr>"]
  note n = clients_outcomes [of provider_404 "''Tenet''" "\<lparr>status_code = 404, json = None\<rparr>"]
  note a = clients_outcomes [of provider_na "''Tenet''" "\<lparr>status_code = 200, json = Some na_body\<rparr>"
      "[(''Poster'', PStr ''N/A''), (''items'', PList [])]"]
  note m = clients_outcomes [of provider_empty "''Tenet''" "\<lparr>status_code = 200, json = Some (PDict [])\<rparr>" "[]"]
  have "fetch_movie_poster provider_down ''Tenet'' = Inl RequestException"
    "fetch_movie_trailer provider_down ''Tenet'' = Inl RequestException"
    using d by (simp_all add: provider_down_def provider_ok_def)
  moreover have "fetch_movie_poster provider_garbled ''Tenet'' = Inl JSONDecodeError"
    "fetch_movie_trailer provider_garbled ''Tenet'' = Inl JSONDecodeError"
    using g by (simp_all add: provider_garbled_def provider_ok_def)
  moreover have "fetch_movie_poster provider_404 ''Tenet'' = Inr PNone"
    "fetch_movie_trailer provider_404 ''Tenet'' = Inr None"
    using n by (simp_all add: provider_404_def provider_ok_def)
  moreover have "fetch_movie_poster provider_na ''Tenet'' = Inr PNone"
    "fetch_movie_trailer provider_na ''Tenet'' = Inr None"
    using a by (simp_all add: provider_na_def provider_ok_def na_body_def)
  moreover have "fetch_movie_poster provider_empty ''Tenet'' = Inr PNone"
    "fetch_movie_trailer provider_empty ''Tenet'' = Inr None"
    using m by (simp_all add: provider_empty_def provider_ok_def)
  ultimately show ?thesis by (simp only: simp_thms)
qed

section \<open>Blank and unknown titles\<close>

text \<open>
  C1. For an absent, blank or unknown title \<open>recommend\<close> returns two empty lists,
  not the three lists of the final \<open>return\<close>, and the route, which unpacks three
  values, raises \<open>ValueError\<close>: the claim asks for an empty result of the shape of
  the success result and no error.
\<close>

theorem recommend_not_found_is_pair:
  assumes "q = None \<or> (\<exists>m. q = Some m \<and>
             (py_strip m = [] \<or> normalize m \<notin> set (map normalize (movies st))))"
  shows "fst (recommend e st q) = Inr (Tuple2 [] [])
         \<and> fst (recommend_movies e st q) = Inl ValueError"
proof -
  from assms have "fst (recommend e st q) = Inr (Tuple2 [] [])"
    by (auto simp: recommend_def Let_def)
  moreover from this have "fst (recommend_movies e st q) = Inl ValueError"
    by (cases "recommend e st q") (simp add: recommend_movies_def)
  ultimately show ?thesis by simp
qed

text \<open>
  The empty title, an unknown title and a missing form field on the scenario catalog.
\<close>

theorem recommend_not_found_is_pair_witness:
  "fst (recommend provider_ok catalog3 (Some '''')) = Inr (Tuple2 [] [])
   \<and> fst (recommend_movies provider_ok catalog3 (Some '''')) = Inl ValueError
   \<and> fst (recommend provider_ok catalog3 (Some ''Nonexistent Movie'')) = Inr (Tuple2 [] [])
   \<and> fst (recommend_movies provider_ok catalog3 (Some ''Nonexistent Movie'')) = Inl ValueError
   \<and> fst (recommend provider_ok catalog3 None) = Inr (Tuple2 [] [])
   \<and> fst (recommend_movies provider_ok catalog3 None) = Inl ValueError"
proof -
  have blank: "py_strip '''' = []" by code_simp
  have absent: "normalize ''Nonexistent Movie'' \<notin> set (map normalize (movies catalog3))"
    by code_simp
  from blank have h1: "Some '''' = None \<or> (\<exists>m. Some '''' = Some m \<and>
      (py_strip m = [] \<or> normalize m \<notin> set (map normalize (movies catalog3))))"
    by blast
  from absent have h2: "Some ''Nonexistent Movie'' = None \<or> (\<exists>m. Some ''Nonexistent Movie'' = Some m \<and>
      (py_strip m = [] \<or> normalize m \<notin> set (map normalize (movies catalog3))))"
    by blast
  have h3: "(None :: string option) = None \<or> (\<exists>m. None = Some m \<and>
      (py_strip m = [] \<or> normalize m \<notin> set (map normalize (movies catalog3))))"
    by blast
  from recommend_not_found_is_pair [OF h1, of provider_ok]
    recommend_not_found_is_pair [OF h2, of provider_ok]
    recommend_not_found_is_pair [OF h3, of provider_ok]
  show ?thesis by (simp only: simp_thms)
qed

section \<open>The catalog across calls\<close>

text \<open>
  C4, as stated, fails: a call to \<open>recommend\<close> with a title that is not blank
  assigns the normalised titles to the catalog, and the home page lists them
  afterwards.
\<close>

theorem recommend_rewrites_catalog:
  "home catalog3 = [''Inception'', ''Interstellar'', ''Tenet'']
   \<and> home (snd (recommend provider_404 catalog3 (Some ''Tenet'')))
       = [''inception'', ''interstellar'', ''tenet'']
   \<and> home (snd (recommend provider_404 catalog3 (Some ''Tenet''))) \<noteq> home catalog3"
  by code_simp

lemma snd_recommend:
  "snd (recommend e st q) =
     (case q of None \<Rightarrow> st
      | Some m \<Rightarrow> if py_strip m = [] then st else st\<lparr>movies := map normalize (movies st)\<rparr>)"
  by (simp add: recommend_def Let_def split: option.splits sum.splits prod.splits)

text \<open>
  C4, amended. A call with an absent or blank title leaves the globals as they are; any
  other call replaces every stored title by its normalised form, whatever it returns or
  raises. No call changes the similarity matrix, the number of titles or the normalised
  form of a title, and after a first call with a title that is not blank no further call
  changes anything.
\<close>

theorem recommend_store_effect:
  "snd (recommend e st q) =
     (case q of None \<Rightarrow> st
      | Some m \<Rightarrow> if py_strip m = [] then st else st\<lparr>movies := map normalize (movies st)\<rparr>)
   \<and> similarity (snd (recommend e st q)) = similarity st
   \<and> length (movies (snd (recommend e st q))) = length (movies st)
   \<and> map normalize (movies (snd (recommend e st q))) = map normalize (movies st)
   \<and> (py_strip m \<noteq> [] \<longrightarrow>
        snd (recommend e' (snd (recommend e st (Some m))) q') = snd (recommend e st (Some m)))"
proof -
  have twice: "normalize \<circ> normalize = normalize"
    by (rule ext) (simp add: normalize_twice)
  have c2: "similarity (snd (recommend e st q)) = similarity st"
    by (simp add: snd_recommend split: option.splits)
  have c3: "length (movies (snd (recommend e st q))) = length (movies st)"
    by (simp add: snd_recommend split: option.splits)
  have c4: "map normalize (movies (snd (recommend e st q))) = map normalize (movies st)"
    by (simp add: snd_recommend normalize_twice split: option.splits)
  have c5: "snd (recommend e' (snd (recommend e st (Some m))) q') = snd (recommend e st (Some m))"
    if "py_strip m \<noteq> []"
    using that by (simp add: snd_recommend twice split: option.splits)
  from snd_recommend [of e st q] c2 c3 c4 c5 show ?thesis by blast
qed

text \<open>
  The effect on the scenario catalog: the first call lowercases the titles, a second call
  leaves them.
\<close>

theorem recommend_store_effect_witness:
  "py_strip ''Tenet'' \<noteq> []
   \<and> movies (snd (recommend provider_404 catalog3 (Some ''Tenet'')))
       = [''inception'', ''interstellar'', ''tenet'']
   \<and> snd (recommend provider_down (snd (recommend provider_404 catalog3 (Some ''Tenet''))) (Some ''Heat''))
       = snd (recommend provider_404 catalog3 (Some ''Tenet''))"
proof -
  have nb: "py_strip ''Tenet'' \<noteq> []" by (rule catalog3_tenet(1))
  have m: "movies (snd (recommend provider_404 catalog3 (Some ''Tenet'')))
       = [''inception'', ''interstellar'', ''tenet'']"
    by code_simp
  from recommend_store_effect [of provider_404 catalog3 "Some ''Tenet''" "''Tenet''" provider_down "Some ''Heat''"] nb
  have "snd (recommend provider_down (snd (recommend provider_404 catalog3 (Some ''Tenet''))) (Some ''Heat''))
       = snd (recommend provider_404 catalog3 (Some ''Tenet''))"
    by blast
  with nb m show ?thesis by (simp only: simp_thms)
qed

section \<open>The scenario of the specification\<close>

lemma scenario_facts:
  "py_strip ''  INCEPTION  '' \<noteq> []"
  "normalize ''  INCEPTION  '' = ''inception''"
  "map normalize [''Inception'', ''Interstellar'', ''Tenet''] = [''inception'', ''interstellar'', ''tenet'']"
  "first_index [''inception'', ''interstellar'', ''tenet''] ''inception'' = Some 0"
  "movies_list [1, 0.8, 0.3] = [(1, 0.8), (2, 0.3)]"
  by code_simp+

text \<open>
  C3, as stated, fails: the titles come back in the normalised form that line 105 has
  stored in the catalog, lowercase, not as the catalog held them at load time.
\<close>

theorem scenario_inception_stored_case:
  "fst (recommend provider_404 catalog3 (Some ''  INCEPTION  ''))
     = Inr (Tuple3 [''interstellar'', ''tenet''] [PNone, PNone] [None, None])
   \<and> [''interstellar'', ''tenet''] \<noteq> [''Interstellar'', ''Tenet'']"
  by code_simp

text \<open>
  C3, amended. For the catalog Inception, Interstellar, Tenet, with the row 1.0, 0.8, 0.3
  for Inception and any other two rows, \<open>recommend("  INCEPTION  ")\<close> returns the
  titles \<open>interstellar\<close>, \<open>tenet\<close> in that order, or else propagates an exception
  that an enrichment client raised for one of these two titles.
\<close>

theorem scenario_inception:
  "(\<exists>ps trs. fst (recommend e
        \<lparr>movies = [''Inception'', ''Interstellar'', ''Tenet''], similarity = [[1, 0.8, 0.3], r1, r2]\<rparr>
        (Some ''  INCEPTION  '')) = Inr (Tuple3 [''interstellar'', ''tenet''] ps trs))
   \<or> (\<exists>x. fst (recommend e
        \<lparr>movies = [''Inception'', ''Interstellar'', ''Tenet''], similarity = [[1, 0.8, 0.3], r1, r2]\<rparr>
        (Some ''  INCEPTION  '')) = Inl x
      \<and> (fetch_movie_poster e ''interstellar'' = Inl x \<or> fetch_movie_trailer e ''interstellar'' = Inl x
         \<or> fetch_movie_poster e ''tenet'' = Inl x \<or> fetch_movie_trailer e ''tenet'' = Inl x))"
proof -
  let ?st = "\<lparr>movies = [''Inception'', ''Interstellar'', ''Tenet''], similarity = [[1, 0.8, 0.3], r1, r2]\<rparr>"
  let ?titles = "[''inception'', ''interstellar'', ''tenet'']"
  let ?ml = "[(1, 0.8), (2, 0.3)] :: (nat \<times> real) list"
  have m: "movies ?st = [''Inception'', ''Interstellar'', ''Tenet'']" by simp
  have titles: "map normalize (movies ?st) = ?titles"
    by (simp only: m scenario_facts(3))
  have k: "first_index (map normalize (movies ?st)) (normalize ''  INCEPTION  '') = Some 0"
    by (simp only: titles scenario_facts(2) scenario_facts(4))
  have ks: "0 < length (similarity ?st)" by simp
  have row: "similarity ?st ! 0 = [1, 0.8, 0.3]" by simp
  have ml: "movies_list (similarity ?st ! 0) = ?ml"
    by (simp only: row scenario_facts(5))
  note rv = recommend_valid [OF scenario_facts(1) k ks, of e, unfolded titles ml]
  show ?thesis
  proof (cases "recommend_loop e ?titles ?ml ([], [], [])")
    case (Inl x)
    from recommend_loop_Inl [OF Inl]
    have "fetch_movie_poster e ''interstellar'' = Inl x \<or> fetch_movie_trailer e ''interstellar'' = Inl x
         \<or> fetch_movie_poster e ''tenet'' = Inl x \<or> fetch_movie_trailer e ''tenet'' = Inl x"
      by auto
    with rv Inl show ?thesis by simp
  next
    case (Inr r)
    obtain ts ps trs where r: "r = (ts, ps, trs)" by (cases r)
    from recommend_loop_Inr [OF Inr [unfolded r]] have "ts = [''interstellar'', ''tenet'']"
      by simp
    with rv Inr r show ?thesis by simp
  qed
qed

text \<open>
  With a provider that answers 404 the call returns.
\<close>

theorem scenario_inception_witness:
  "fst (recommend provider_404
        \<lparr>movies = [''Inception'', ''Interstellar'', ''Tenet''],
           similarity = [[1, 0.8, 0.3], [0.8, 1, 0.5], [0.3, 0.5, 1]]\<rparr>
        (Some ''  INCEPTION  '')) = Inr (Tuple3 [''interstellar'', ''tenet''] [PNone, PNone] [None, None])"
proof -
  have r: "fst (recommend provider_404
        \<lparr>movies = [''Inception'', ''Interstellar'', ''Tenet''],
           similarity = [[1, 0.8, 0.3], [0.8, 1, 0.5], [0.3, 0.5, 1]]\<rparr>
        (Some ''  INCEPTION  '')) = Inr (Tuple3 [''interstellar'', ''tenet''] [PNone, PNone] [None, None])"
    by code_simp
  from scenario_inception [of provider_404 "[0.8, 1, 0.5]" "[0.3, 0.5, 1]"] r
  show ?thesis by (simp only: simp_thms)
qed

section \<open>One failing enrichment among the recommendations\<close>
















end
